theory Spec2Isabelle
  imports Complex_Main "HOL-Library.Monad_Syntax" "HOL-Library.AList"
begin

section \<open>Python floats\<close>

text \<open>
  A Python float is an IEEE 754 binary64 number. The model has the finite ones, each as
  an odd mantissa times a power of two (zero as mantissa 0 and exponent 0), and their
  addition, subtraction and comparison: the exact sum is rounded to 53 bits, to nearest,
  ties to even. The exponent is not bounded: overflow and subnormal numbers are left out.
  For instance 0.3 is \<open>Float_of 5404319552844595 (- 54)\<close> and 0.9 is
  \<open>Float_of 8106479329266893 (- 53)\<close>.
\<close>

datatype pyfloat = Float_of (mantissa: int) (exponent: int)










section \<open>The LECO director of a remote actuator (daq\_move\_LECODirector.py)\<close>

text \<open>
  \<^verbatim>\<open>DAQ_Move_LECODirector\<close> forwards the commands of a move module to a remote
  actuator through its \<^verbatim>\<open>controller\<close>, an \<^verbatim>\<open>ActuatorDirector\<close>. The plugin declares
  \<^verbatim>\<open>data_actuator_type = DataActuatorType['float']\<close>: a position is a Python float,
  and \<^verbatim>\<open>+\<close> and \<^verbatim>\<open>-\<close> in \<^verbatim>\<open>move_rel\<close> are the float operations.
  The calls made on the controller are recorded, in order, in the field \<open>sent\<close>.
\<close>

datatype rpc =
    Set_remote_name string
  | Move_abs pyfloat
  | Move_rel pyfloat
  | Move_home
  | Get_actuator_value
  | Stop_motion

record ActuatorDirector =
  actor :: string

record Status =
  info :: string
  controller :: "ActuatorDirector option"
  initialized :: bool

record Settings =
  actor_name :: string
  hidden :: "string list"

record Director =
  settings :: Settings
  status :: Status
  self_controller :: "ActuatorDirector option"
  current_value :: pyfloat
  target_value :: pyfloat
  sent :: "rpc list"
  printed :: "string list"

text \<open>
  The methods inherited from \<^verbatim>\<open>DAQ_Move_base\<close> (module
  \<^verbatim>\<open>pymodaq.control_modules.move_utility_classes\<close>) are not part of the sources at hand;
  they are parameters of the model, gathered in one record.
\<close>

record Move_base =
  check_bound :: "pyfloat \<Rightarrow> pyfloat"
  set_position_with_scaling :: "pyfloat \<Rightarrow> pyfloat"
  set_position_relative_with_scaling :: "pyfloat \<Rightarrow> pyfloat"
  ini_stage_init :: "ActuatorDirector option \<Rightarrow> ActuatorDirector \<Rightarrow> ActuatorDirector"

text \<open>
  The answer of the remote side to a call made on the controller: the source expects the
  call to return or to raise \<^verbatim>\<open>TimeoutError\<close> (the \<^verbatim>\<open>except\<close> clause of
  \<^verbatim>\<open>ini_stage\<close>).
\<close>

datatype reply = Replied | TimeoutError

definition hide :: "string \<Rightarrow> Settings \<Rightarrow> Settings" where
  "hide child st = st\<lparr>hidden := hidden st @ [child]\<rparr>"

definition ini_stage ::
  "Move_base \<Rightarrow> string \<Rightarrow> reply \<Rightarrow> ActuatorDirector option \<Rightarrow> Director \<Rightarrow> Status \<times> Director" where
  "ini_stage B full_name answer ctrl s =
     (let name = actor_name (settings s);
          s1 = s\<lparr>printed := printed s @ [''actor_name '' @ name]\<rparr>;
          c = ini_stage_init B ctrl \<lparr>actor = name\<rparr>;
          s2 = s1\<lparr>self_controller := Some c\<rparr>;
          s3 = s2\<lparr>sent := sent s2 @ [Set_remote_name full_name]\<rparr>;
          s4 = (case answer of
                  Replied \<Rightarrow> s3
                | TimeoutError \<Rightarrow> s3\<lparr>printed := printed s3 @ [''Timeout setting remote name.'']\<rparr>);
          s5 = s4\<lparr>settings := hide ''epsilon'' (hide ''units'' (settings s4))\<rparr>;
          s6 = s5\<lparr>status := (status s5)\<lparr>info := ''LECODirector''\<rparr>\<rparr>;
          s7 = s6\<lparr>status := (status s6)\<lparr>controller := self_controller s6\<rparr>\<rparr>;
          s8 = s7\<lparr>status := (status s7)\<lparr>initialized := True\<rparr>\<rparr>
      in (status s8, s8))"








section \<open>The display of 0D data (viewer0D.py)\<close>

text \<open>
  \<^verbatim>\<open>DataDisplayer\<close> keeps one curve (a pyqtgraph \<^verbatim>\<open>PlotDataItem\<close>) per data channel.
  The curves are objects shared between the list \<^verbatim>\<open>_plot_items\<close>, the plot item and
  its legend, and \<^verbatim>\<open>setData\<close> mutates them in place: they live in a store
  (\<open>objects\<close>) and are referred to by their address.
  A method that raises returns the exception together with the state reached, since the
  mutations made before the exception persist.
\<close>

datatype py_exception = AttributeError | IndexError

type_synonym color = "nat \<times> nat \<times> nat"

record PlotDataItem =
  pen :: color
  xData :: "real list"
  yData :: "real list"

record PlotItem =
  items :: "nat list"
  legend :: "(nat \<times> string) list"

record DataRaw =
  data :: "real list list"
  labels :: "string list"

datatype signal = Updated_item "nat list" | Labels_changed "string list"

text \<open>
  \<^verbatim>\<open>Data0DWithHistory\<close> (module \<^verbatim>\<open>pymodaq.utils.plotting.utils.plot_utils\<close>) and the
  colour table \<^verbatim>\<open>utils.plot_colors\<close> are not part of the sources at hand. The history
  is a type parameter \<open>'h\<close> with the three members that \<^verbatim>\<open>update_data\<close> uses; the
  colour table is an argument \<open>PLOT_COLORS\<close>.
\<close>

record 'h Data0DWithHistory =
  add_datas :: "'h \<Rightarrow> DataRaw \<Rightarrow> 'h"
  datas :: "'h \<Rightarrow> (string \<times> real list) list"
  xaxis :: "'h \<Rightarrow> real list"

record 'h DataDisplayer =
  plotitem :: PlotItem
  plot_items :: "nat list"
  data0D :: 'h
  objects :: "(nat \<times> PlotDataItem) list"
  emitted :: "signal list"

text \<open>
  The names that resolve on an instance of viewer0D's \<^verbatim>\<open>DataDisplayer\<close>: the two
  signals of the class, the three attributes set by \<^verbatim>\<open>__init__\<close>, the two properties
  and the four methods. The base class \<^verbatim>\<open>QObject\<close> adds Qt's own members, none of which
  is called \<^verbatim>\<open>legend_items\<close>. (The class of the same name in viewer1D.py does define
  \<^verbatim>\<open>legend_items\<close>; this one does not.)
\<close>

definition DataDisplayer_attributes :: "string list" where
  "DataDisplayer_attributes =
     [''updated_item'', ''labels_changed'', ''_plotitem'', ''_plot_items'', ''_data'',
      ''legend'', ''axis'', ''clear_data'', ''update_axis'', ''update_data'',
      ''update_display_items'']"

text \<open>
  Reading \<^verbatim>\<open>self.legend_items\<close>: \<^verbatim>\<open>AttributeError\<close> unless the name resolves. Were it
  defined as the labels of the legend, the read would give them.
\<close>

definition legend_items :: "'h DataDisplayer \<Rightarrow> py_exception + string list" where
  "legend_items s =
     (if ''legend_items'' \<in> set DataDisplayer_attributes
      then Inr (map snd (legend (plotitem s)))
      else Inl AttributeError)"

text \<open>pyqtgraph's \<^verbatim>\<open>LegendItem.removeItem\<close>, given a label: the first entry with that label goes.\<close>

fun removeItem_legend :: "string \<Rightarrow> (nat \<times> string) list \<Rightarrow> (nat \<times> string) list" where
  "removeItem_legend l [] = []"
| "removeItem_legend l ((i, t) # es) = (if t = l then es else (i, t) # removeItem_legend l es)"

text \<open>
  The clearing loop of \<^verbatim>\<open>update_display_items\<close>:
  \<^verbatim>\<open>
  while len(self._plot_items) > 0:
      self._plotitem.removeItem(self._plot_items.pop(0))
      self.legend.removeItem(self.legend_items[0])
  \<close>
  The first statement of the body has run when the second one reads \<^verbatim>\<open>self.legend_items\<close>.
\<close>

function clear_items ::
  "'h DataDisplayer \<Rightarrow> (py_exception \<times> 'h DataDisplayer) + 'h DataDisplayer" where
  "clear_items s =
     (case plot_items s of
        [] \<Rightarrow> Inr s
      | i # rest \<Rightarrow>
          (let s1 = s\<lparr>plot_items := rest\<rparr>;
               s2 = s1\<lparr>plotitem := (plotitem s1)\<lparr>items := remove1 i (items (plotitem s1))\<rparr>\<rparr>
           in case legend_items s2 of
                Inl e \<Rightarrow> Inl (e, s2)
              | Inr [] \<Rightarrow> Inl (IndexError, s2)
              | Inr (l # _) \<Rightarrow>
                  clear_items
                    (s2\<lparr>plotitem := (plotitem s2)\<lparr>legend := removeItem_legend l (legend (plotitem s2))\<rparr>\<rparr>)))"
  by pat_completeness auto
termination
  by (relation "measure (\<lambda>s. length (plot_items s))") auto

declare clear_items.simps [simp del]

text \<open>\<^verbatim>\<open>pyqtgraph.PlotDataItem(pen=c)\<close>: a new object in the store, at a fresh address.\<close>

definition new_PlotDataItem :: "color \<Rightarrow> 'h DataDisplayer \<Rightarrow> nat \<times> 'h DataDisplayer" where
  "new_PlotDataItem c s =
     (let i = length (objects s)
      in (i, s\<lparr>objects := objects s @ [(i, \<lparr>pen = c, xData = [], yData = []\<rparr>)]\<rparr>))"

text \<open>
  The loop \<^verbatim>\<open>for ind in range(len(data))\<close> of \<^verbatim>\<open>update_display_items\<close>; the two
  subscripts \<^verbatim>\<open>PLOT_COLORS[ind]\<close> and \<^verbatim>\<open>data.labels[ind]\<close> raise \<^verbatim>\<open>IndexError\<close> out
  of range.
\<close>

fun add_items ::
  "color list \<Rightarrow> DataRaw \<Rightarrow> nat list \<Rightarrow> 'h DataDisplayer
     \<Rightarrow> (py_exception \<times> 'h DataDisplayer) + 'h DataDisplayer" where
  "add_items PLOT_COLORS d [] s = Inr s"
| "add_items PLOT_COLORS d (ind # inds) s =
     (if length PLOT_COLORS \<le> ind then Inl (IndexError, s)
      else
        let (i, s1) = new_PlotDataItem (PLOT_COLORS ! ind) s;
            s2 = s1\<lparr>plot_items := plot_items s1 @ [i]\<rparr>;
            s3 = s2\<lparr>plotitem := (plotitem s2)\<lparr>items := items (plotitem s2) @ [last (plot_items s2)]\<rparr>\<rparr>
        in if length (labels d) \<le> ind then Inl (IndexError, s3)
           else add_items PLOT_COLORS d inds
                  (s3\<lparr>plotitem := (plotitem s3)
                        \<lparr>legend := legend (plotitem s3) @ [(last (plot_items s3), labels d ! ind)]\<rparr>\<rparr>))"

definition update_display_items ::
  "color list \<Rightarrow> DataRaw \<Rightarrow> 'h DataDisplayer
     \<Rightarrow> (py_exception \<times> 'h DataDisplayer) + 'h DataDisplayer" where
  "update_display_items PLOT_COLORS d s =
     (case clear_items s of
        Inl e \<Rightarrow> Inl e
      | Inr s1 \<Rightarrow>
          (case add_items PLOT_COLORS d [0 ..< length (data d)] s1 of
             Inl e \<Rightarrow> Inl e
           | Inr s2 \<Rightarrow>
               Inr (s2\<lparr>emitted := emitted s2 @ [Updated_item (plot_items s2), Labels_changed (labels d)]\<rparr>)))"

text \<open>\<^verbatim>\<open>PlotDataItem.setData\<close> on the object at address \<open>i\<close>.\<close>

fun setData ::
  "nat \<Rightarrow> real list \<Rightarrow> real list \<Rightarrow> (nat \<times> PlotDataItem) list \<Rightarrow> (nat \<times> PlotDataItem) list" where
  "setData i xs ys [] = []"
| "setData i xs ys ((j, it) # os) =
     (if j = i then (j, it\<lparr>xData := xs, yData := ys\<rparr>) # os else (j, it) # setData i xs ys os)"

text \<open>
  The loop \<^verbatim>\<open>for ind, data_str in enumerate(self._data.datas)\<close> of \<^verbatim>\<open>update_data\<close>;
  \<^verbatim>\<open>self._plot_items[ind]\<close> raises \<^verbatim>\<open>IndexError\<close> out of range.
\<close>

fun plot_datas ::
  "real list \<Rightarrow> (nat \<times> string \<times> real list) list \<Rightarrow> 'h DataDisplayer
     \<Rightarrow> (py_exception \<times> 'h DataDisplayer) + 'h DataDisplayer" where
  "plot_datas xs [] s = Inr s"
| "plot_datas xs ((ind, data_str, ys) # rest) s =
     (if length (plot_items s) \<le> ind then Inl (IndexError, s)
      else plot_datas xs rest (s\<lparr>objects := setData (plot_items s ! ind) xs ys (objects s)\<rparr>))"

definition update_data ::
  "'h Data0DWithHistory \<Rightarrow> color list \<Rightarrow> DataRaw \<Rightarrow> 'h DataDisplayer
     \<Rightarrow> (py_exception \<times> 'h DataDisplayer) + 'h DataDisplayer" where
  "update_data H PLOT_COLORS d s =
     (case (if length (data d) \<noteq> length (plot_items s)
            then update_display_items PLOT_COLORS d s else Inr s) of
        Inl e \<Rightarrow> Inl e
      | Inr s1 \<Rightarrow>
          (let s2 = s1\<lparr>data0D := add_datas H (data0D s1) d\<rparr>
           in plot_datas (xaxis H (data0D s2))
                (zip [0 ..< length (datas H (data0D s2))] (datas H (data0D s2))) s2))"

text \<open>
  A history to run \<^verbatim>\<open>update_data\<close> on concrete inputs: it keeps the arrays last
  received, one per label, over a one-point axis.
\<close>

definition last_values :: "((string \<times> real list) list) Data0DWithHistory" where
  "last_values =
     \<lparr>add_datas = (\<lambda>h d. zip (labels d) (data d)), datas = (\<lambda>h. h), xaxis = (\<lambda>h. [0])\<rparr>"

section \<open>The persistence layer (h5modules: saving.py, data\_saving.py)\<close>

text \<open>
  The modules \<^verbatim>\<open>pymodaq.utils.h5modules.saving\<close> and
  \<^verbatim>\<open>pymodaq.utils.h5modules.data_saving\<close>, and the data classes of
  \<^verbatim>\<open>pymodaq.utils.data\<close>, are not part of the sources at hand; only their test file
  \<^verbatim>\<open>data_saving_test.py\<close> is. Every definition of this section is modelled from the
  specification: a hierarchical file of nodes carrying attribute dictionaries, in which
  axes and fixed data are saved and from which they are loaded back, by the calls that the
  test file makes and with the node names and attributes that it asserts.
\<close>

subsection \<open>Arrays, attributes and nodes\<close>

text \<open>
  Modelled from the spec: a multidimensional array (the numpy arrays held by the data objects
  and by the array nodes), as its shape and its elements in row-major order.
\<close>

record ndarray =
  shape :: "nat list"
  flat :: "real list"

text \<open>
  Modelled from the spec: the value of a node attribute (the file library's typed attributes
  are missing).
\<close>

datatype attr = A_str string | A_int int | A_real real | A_shape "nat list"

text \<open>
  Modelled from the spec: the node classes of \<^verbatim>\<open>saving.py\<close> and its backend (missing): a
  group, a fixed array and an enlargeable array; and a node with its attribute dictionary,
  its array and, for a group, its children in the order of their creation.
\<close>

datatype h5class = GROUP | CARRAY | EARRAY

datatype h5node =
  Node (kind: h5class) (attrs: "(string \<times> attr) list") (array: ndarray)
       (children: "(string \<times> h5node) list")

type_synonym path = "string list"

text \<open>
  Modelled from the spec: a group as \<^verbatim>\<open>get_set_group\<close> creates it (missing): a title, no
  array, no child yet.
\<close>

definition no_array :: ndarray where
  "no_array = \<lparr>shape = [], flat = []\<rparr>"

definition new_group :: "string \<Rightarrow> h5node" where
  "new_group title = Node GROUP [(''TITLE'', A_str title)] no_array []"

text \<open>
  Modelled from the spec: the access to the children of a group (backend of
  \<^verbatim>\<open>H5SaverLowLevel\<close>, missing). Creating a child under a name already taken, or under
  a node that is no group, fails.
\<close>

definition get_child :: "h5node \<Rightarrow> string \<Rightarrow> h5node option" where
  "get_child g n = map_of (children g) n"

definition set_child :: "h5node \<Rightarrow> string \<Rightarrow> h5node \<Rightarrow> h5node" where
  "set_child g n c =
     Node (kind g) (attrs g) (array g) (map (\<lambda>(m, x). if m = n then (m, c) else (m, x)) (children g))"

definition add_child :: "h5node \<Rightarrow> string \<Rightarrow> h5node \<Rightarrow> h5node option" where
  "add_child g n c =
     (if kind g \<noteq> GROUP \<or> n \<in> fst ` set (children g) then None
      else Some (Node (kind g) (attrs g) (array g) (children g @ [(n, c)])))"

text \<open>
  Modelled from the spec: \<^verbatim>\<open>H5SaverLowLevel.get_node\<close> (missing), with a path such as
  \<^verbatim>\<open>/RawData/Data00\<close> given as the list of its components; and the write-back of a
  node changed in place.
\<close>

fun get_node :: "h5node \<Rightarrow> path \<Rightarrow> h5node option" where
  "get_node t [] = Some t"
| "get_node t (n # p) = (case get_child t n of None \<Rightarrow> None | Some c \<Rightarrow> get_node c p)"

fun set_node :: "h5node \<Rightarrow> path \<Rightarrow> h5node \<Rightarrow> h5node option" where
  "set_node t [] g = Some g"
| "set_node t (n # p) g =
     (case get_child t n of
        None \<Rightarrow> None
      | Some c \<Rightarrow> (case set_node c p g of None \<Rightarrow> None | Some c' \<Rightarrow> Some (set_child t n c')))"

text \<open>
  Modelled from the spec: a saver method called with the group \<^verbatim>\<open>where\<close> of an open file
  (the savers hold the file and mutate it; missing). The method is a function on the group.
\<close>

definition at_group :: "h5node \<Rightarrow> path \<Rightarrow> (h5node \<Rightarrow> h5node option) \<Rightarrow> h5node option" where
  "at_group f wh op = do { g \<leftarrow> get_node f wh; g' \<leftarrow> op g; set_node f wh g' }"

subsection \<open>Data types and node names\<close>

text \<open>
  Modelled from the spec: the enum \<^verbatim>\<open>DataType\<close> (missing), with the names and values
  that the tests read (\<^verbatim>\<open>data_type.name == 'data_enlargeable'\<close>,
  \<^verbatim>\<open>data_type.value == 'EnlData'\<close>, the node \<^verbatim>\<open>Axis00\<close>) and a type for backgrounds.
\<close>

datatype DataType = Dt_data | Dt_axis | Dt_bkg | Dt_data_enlargeable

fun type_name :: "DataType \<Rightarrow> string" where
  "type_name Dt_data = ''data''"
| "type_name Dt_axis = ''axis''"
| "type_name Dt_bkg = ''bkg''"
| "type_name Dt_data_enlargeable = ''data_enlargeable''"

fun type_value :: "DataType \<Rightarrow> string" where
  "type_value Dt_data = ''Data''"
| "type_value Dt_axis = ''Axis''"
| "type_value Dt_bkg = ''Bkg''"
| "type_value Dt_data_enlargeable = ''EnlData''"

text \<open>
  Modelled from the spec: the two-digit counter of a node name (\<^verbatim>\<open>Data00\<close>,
  \<^verbatim>\<open>Data01\<close>, ...): a decimal number padded with zeros to two digits.
\<close>

definition digit :: "nat \<Rightarrow> char" where
  "digit n = ''0123456789'' ! n"

function decimal :: "nat \<Rightarrow> string" where
  "decimal n = (if n < 10 then [digit n] else decimal (n div 10) @ [digit (n mod 10)])"
  by pat_completeness auto
termination
  by (relation "measure id") auto

declare decimal.simps [simp del]

definition two_digits :: "nat \<Rightarrow> string" where
  "two_digits n = (if n < 10 then CHR ''0'' # decimal n else decimal n)"

text \<open>
  Modelled from the spec: \<^verbatim>\<open>DataManagement._format_node_name\<close> and the methods around
  it (missing): the node-path derivation from the data type and the number of nodes of
  that type already in the group.
\<close>

definition format_node_name :: "DataType \<Rightarrow> nat \<Rightarrow> string" where
  "format_node_name t ind = type_value t @ two_digits ind"

definition is_node_of_data_type :: "DataType \<Rightarrow> h5node \<Rightarrow> bool" where
  "is_node_of_data_type t nd = (map_of (attrs nd) ''data_type'' = Some (A_str (type_name t)))"

definition get_nodes_from_data_type :: "DataType \<Rightarrow> h5node \<Rightarrow> (string \<times> h5node) list" where
  "get_nodes_from_data_type t g = filter (\<lambda>(n, c). is_node_of_data_type t c) (children g)"

definition get_next_data_type_index_in_group :: "DataType \<Rightarrow> h5node \<Rightarrow> nat" where
  "get_next_data_type_index_in_group t g = length (get_nodes_from_data_type t g)"

definition get_next_node_name :: "DataType \<Rightarrow> h5node \<Rightarrow> string" where
  "get_next_node_name t g = format_node_name t (get_next_data_type_index_in_group t g)"

text \<open>
  Modelled from the spec: \<^verbatim>\<open>H5SaverLowLevel.add_array\<close> (missing), for an array saved
  as it is: the node gets its title, its shape, its data type, its dimension and the
  metadata as attributes.
\<close>

definition set_attrs :: "(string \<times> attr) list \<Rightarrow> (string \<times> attr) list \<Rightarrow> (string \<times> attr) list" where
  "set_attrs metadata al = foldl (\<lambda>al (k, v). AList.update k v al) al metadata"

definition new_array ::
  "DataType \<Rightarrow> string \<Rightarrow> ndarray \<Rightarrow> string \<Rightarrow> (string \<times> attr) list \<Rightarrow> h5node" where
  "new_array t title array_to_save data_dimension metadata =
     Node CARRAY
       (set_attrs ([(''data_type'', A_str (type_name t)),
                    (''data_dimension'', A_str data_dimension)] @ metadata)
          [(''TITLE'', A_str title), (''shape'', A_shape (shape array_to_save))])
       array_to_save []"

definition add_array ::
  "h5node \<Rightarrow> string \<Rightarrow> DataType \<Rightarrow> string \<Rightarrow> ndarray \<Rightarrow> string
     \<Rightarrow> (string \<times> attr) list \<Rightarrow> h5node option" where
  "add_array g nm t title array_to_save data_dimension metadata =
     add_child g nm (new_array t title array_to_save data_dimension metadata)"

subsection \<open>The data objects\<close>

text \<open>
  Modelled from the spec: the classes \<^verbatim>\<open>Axis\<close> and \<^verbatim>\<open>DataWithAxes\<close> and the enum
  \<^verbatim>\<open>DataDim\<close> of \<^verbatim>\<open>pymodaq.utils.data\<close> (missing), with the fields that the tests
  construct and the claims name.
\<close>

datatype DataDim = Data0D | Data1D | Data2D | DataND

fun dim_name :: "DataDim \<Rightarrow> string" where
  "dim_name Data0D = ''Data0D''"
| "dim_name Data1D = ''Data1D''"
| "dim_name Data2D = ''Data2D''"
| "dim_name DataND = ''DataND''"

definition dim_of_name :: "string \<Rightarrow> DataDim option" where
  "dim_of_name s =
     (if s = ''Data0D'' then Some Data0D else if s = ''Data1D'' then Some Data1D
      else if s = ''Data2D'' then Some Data2D else if s = ''DataND'' then Some DataND else None)"

record Axis =
  label :: string
  units :: string
  axis_data :: ndarray
  index :: nat
  offset :: real
  scaling :: real

record DataWithAxes =
  name :: string
  source :: string
  dim :: DataDim
  distribution :: string
  dwa_data :: "ndarray list"
  dwa_labels :: "string list"
  axes :: "Axis list"

subsection \<open>Axes\<close>

text \<open>
  Modelled from the spec: reading a typed attribute of a node (\<^verbatim>\<open>node.attrs[key]\<close>,
  missing); a key that is absent, or of another type, fails.
\<close>

definition get_str :: "h5node \<Rightarrow> string \<Rightarrow> string option" where
  "get_str nd k = (case map_of (attrs nd) k of Some (A_str s) \<Rightarrow> Some s | _ \<Rightarrow> None)"

definition get_int :: "h5node \<Rightarrow> string \<Rightarrow> int option" where
  "get_int nd k = (case map_of (attrs nd) k of Some (A_int i) \<Rightarrow> Some i | _ \<Rightarrow> None)"

definition get_real :: "h5node \<Rightarrow> string \<Rightarrow> real option" where
  "get_real nd k = (case map_of (attrs nd) k of Some (A_real x) \<Rightarrow> Some x | _ \<Rightarrow> None)"

text \<open>
  Modelled from the spec: \<^verbatim>\<open>AxisSaverLoader.add_axis\<close>, \<^verbatim>\<open>load_axis\<close> and \<^verbatim>\<open>get_axes\<close>
  (missing): an axis is an array node of type \<^verbatim>\<open>axis\<close> whose attributes hold the axis
  metadata; loading reads them back; \<^verbatim>\<open>get_axes\<close> loads the axis nodes of a group in
  their order.
\<close>

definition axis_metadata :: "Axis \<Rightarrow> (string \<times> attr) list" where
  "axis_metadata a =
     [(''label'', A_str (label a)), (''units'', A_str (units a)), (''index'', A_int (int (index a))),
      (''offset'', A_real (offset a)), (''scaling'', A_real (scaling a))]"

definition add_axis :: "h5node \<Rightarrow> Axis \<Rightarrow> h5node option" where
  "add_axis g a =
     add_array g (get_next_node_name Dt_axis g) Dt_axis (label a) (axis_data a) ''Data1D''
       (axis_metadata a)"

definition load_axis :: "h5node \<Rightarrow> Axis option" where
  "load_axis nd = do {
     l \<leftarrow> get_str nd ''label'';
     u \<leftarrow> get_str nd ''units'';
     i \<leftarrow> get_int nd ''index'';
     off \<leftarrow> get_real nd ''offset'';
     sc \<leftarrow> get_real nd ''scaling'';
     Some \<lparr>label = l, units = u, axis_data = array nd, index = nat i, offset = off, scaling = sc\<rparr>
   }"

definition get_axes :: "h5node \<Rightarrow> Axis list option" where
  "get_axes g = those (map (\<lambda>(n, c). load_axis c) (get_nodes_from_data_type Dt_axis g))"

fun add_axes :: "Axis list \<Rightarrow> h5node \<Rightarrow> h5node option" where
  "add_axes [] g = Some g"
| "add_axes (a # as) g = do { g' \<leftarrow> add_axis g a; add_axes as g' }"

subsection \<open>Fixed data\<close>

text \<open>
  Modelled from the spec: \<^verbatim>\<open>DataSaverLoader.add_data\<close> (missing; the background saver
  is the same saver with the type \<^verbatim>\<open>bkg\<close>): one array node per array of the data, named
  by the next free counter of the data type, then one axis node per axis.
\<close>

definition data_metadata :: "DataWithAxes \<Rightarrow> string \<Rightarrow> (string \<times> attr) list" where
  "data_metadata d l =
     [(''label'', A_str l), (''source'', A_str (source d)), (''distribution'', A_str (distribution d))]"

fun add_data_arrays ::
  "DataType \<Rightarrow> DataWithAxes \<Rightarrow> nat list \<Rightarrow> h5node \<Rightarrow> h5node option" where
  "add_data_arrays t d [] g = Some g"
| "add_data_arrays t d (ind # inds) g =
     (if length (dwa_labels d) \<le> ind \<or> length (dwa_data d) \<le> ind then None
      else do {
        g' \<leftarrow> add_array g (get_next_node_name t g) t (name d) (dwa_data d ! ind)
                (dim_name (dim d)) (data_metadata d (dwa_labels d ! ind));
        add_data_arrays t d inds g'
      })"

definition add_data :: "DataType \<Rightarrow> h5node \<Rightarrow> DataWithAxes \<Rightarrow> bool \<Rightarrow> h5node option" where
  "add_data t g d save_axes = do {
     g' \<leftarrow> add_data_arrays t d [0 ..< length (dwa_data d)] g;
     if save_axes then add_axes (axes d) g' else Some g'
   }"

text \<open>
  Modelled from the spec: \<^verbatim>\<open>DataSaverLoader.get_data_arrays\<close> and \<^verbatim>\<open>load_data\<close>
  (missing): the arrays of the nodes of the data type in the group, minus the background
  nodes of the group, pairwise and elementwise, when a background is asked for and
  there is one; the data object is rebuilt from the attributes of the first data node,
  the labels of all of them and the axes of the group. The node given is a data node
  or its group.
\<close>

definition minus_array :: "ndarray \<Rightarrow> ndarray \<Rightarrow> ndarray option" where
  "minus_array a b =
     (if shape a = shape b then Some \<lparr>shape = shape a, flat = map2 (-) (flat a) (flat b)\<rparr> else None)"

definition get_data_arrays :: "DataType \<Rightarrow> h5node \<Rightarrow> bool \<Rightarrow> ndarray list option" where
  "get_data_arrays t g with_bkg =
     (let nodes = map snd (get_nodes_from_data_type t g);
          bkg_nodes = map snd (get_nodes_from_data_type Dt_bkg g)
      in if with_bkg \<and> bkg_nodes \<noteq> []
         then those (map2 (\<lambda>nd b. minus_array (array nd) (array b)) nodes bkg_nodes)
         else Some (map array nodes))"

definition load_data_from_group :: "DataType \<Rightarrow> h5node \<Rightarrow> bool \<Rightarrow> DataWithAxes option" where
  "load_data_from_group t g with_bkg =
     (case map snd (get_nodes_from_data_type t g) of
        [] \<Rightarrow> None
      | data_node # others \<Rightarrow> do {
          ndarrays \<leftarrow> get_data_arrays t g with_bkg;
          axs \<leftarrow> get_axes g;
          title \<leftarrow> get_str data_node ''TITLE'';
          src \<leftarrow> get_str data_node ''source'';
          dm \<leftarrow> Option.bind (get_str data_node ''data_dimension'') dim_of_name;
          dist \<leftarrow> get_str data_node ''distribution'';
          ls \<leftarrow> those (map (\<lambda>nd. get_str nd ''label'') (data_node # others));
          Some \<lparr>name = title, source = src, dim = dm, distribution = dist, dwa_data = ndarrays,
                dwa_labels = ls, axes = axs\<rparr>
        })"

definition load_data :: "DataType \<Rightarrow> h5node \<Rightarrow> path \<Rightarrow> bool \<Rightarrow> DataWithAxes option" where
  "load_data t f wh with_bkg = do {
     nd \<leftarrow> get_node f wh;
     if kind nd = GROUP then load_data_from_group t nd with_bkg
     else if wh = [] then None
     else do { parent \<leftarrow> get_node f (butlast wh); load_data_from_group t parent with_bkg }
   }"

subsection \<open>Auxiliary notions for the properties\<close>

text \<open>The number that a string of digits denotes.\<close>

definition digit_value :: "char \<Rightarrow> nat" where
  "digit_value c = length (takeWhile (\<lambda>x. x \<noteq> c) ''0123456789'')"

definition number :: "string \<Rightarrow> nat" where
  "number s = foldl (\<lambda>a c. 10 * a + digit_value c) 0 s"

text \<open>
  A group is well named when a name of the form of \<^verbatim>\<open>_format_node_name\<close> is borne only
  by a node counted for that data type: the next name of every type is then free. A new
  group is well named.
\<close>

definition well_named :: "h5node \<Rightarrow> bool" where
  "well_named g \<longleftrightarrow>
     kind g = GROUP \<and>
     (\<forall>t i. format_node_name t i \<in> fst ` set (children g)
        \<longrightarrow> i < get_next_data_type_index_in_group t g)"

text \<open>A group with more children, and the names of nodes numbered from a counter on.\<close>

definition append_children :: "h5node \<Rightarrow> (string \<times> h5node) list \<Rightarrow> h5node" where
  "append_children g cs = Node (kind g) (attrs g) (array g) (children g @ cs)"

fun numbered :: "DataType \<Rightarrow> nat \<Rightarrow> h5node list \<Rightarrow> (string \<times> h5node) list" where
  "numbered t k [] = []"
| "numbered t k (nd # nds) = (format_node_name t k, nd) # numbered t (Suc k) nds"

definition axis_node :: "Axis \<Rightarrow> h5node" where
  "axis_node a = new_array Dt_axis (label a) (axis_data a) ''Data1D'' (axis_metadata a)"

definition data_node :: "DataType \<Rightarrow> DataWithAxes \<Rightarrow> nat \<Rightarrow> h5node" where
  "data_node t d ind =
     new_array t (name d) (dwa_data d ! ind) (dim_name (dim d)) (data_metadata d (dwa_labels d ! ind))"

section \<open>Properties of the LECO director\<close>

text \<open>
  C9. \<^verbatim>\<open>ini_stage\<close> returns, whatever the remote side answers to
  \<^verbatim>\<open>set_remote_name\<close>, a status whose \<^verbatim>\<open>initialized\<close> is true and whose
  \<^verbatim>\<open>info\<close> is 'LECODirector'. A \<^verbatim>\<open>TimeoutError\<close> is caught: the status returned
  after a timeout is the status returned after a reply (only the printed line differs),
  so the initialisation never reports a failure.
\<close>

theorem ini_stage_always_initialized:
  "initialized (fst (ini_stage B full_name answer ctrl s)) = True
   \<and> info (fst (ini_stage B full_name answer ctrl s)) = ''LECODirector''
   \<and> fst (ini_stage B full_name TimeoutError ctrl s) = fst (ini_stage B full_name Replied ctrl s)
   \<and> status (snd (ini_stage B full_name answer ctrl s)) = fst (ini_stage B full_name answer ctrl s)
   \<and> printed (snd (ini_stage B full_name TimeoutError ctrl s))
       = printed (snd (ini_stage B full_name Replied ctrl s)) @ [''Timeout setting remote name.'']"
  by (cases answer) (simp_all add: ini_stage_def Let_def)








section \<open>Properties of the display of 0D data\<close>

lemma legend_items_undefined: "legend_items s = Inl AttributeError"
  by (simp add: legend_items_def DataDisplayer_attributes_def)

lemma clear_items_raises:
  "plot_items s = i # rest \<Longrightarrow>
   clear_items s =
     Inl (AttributeError,
          s\<lparr>plot_items := rest, plotitem := (plotitem s)\<lparr>items := remove1 i (items (plotitem s))\<rparr>\<rparr>)"
  by (subst clear_items.simps) (simp add: legend_items_undefined Let_def)

lemma clear_items_empty: "plot_items s = [] \<Longrightarrow> clear_items s = Inr s"
  by (subst clear_items.simps) simp

text \<open>
  C8, as amended. When \<^verbatim>\<open>_plot_items\<close> is not empty, \<^verbatim>\<open>update_display_items\<close>
  raises \<^verbatim>\<open>AttributeError\<close> in the first round of its clearing loop, after the first
  curve has been popped and removed from the plot; and \<^verbatim>\<open>update_data\<close> raises the same
  error when, in addition, the number of channels of the data differs from the number of
  curves.
\<close>

theorem update_display_items_raises:
  assumes "plot_items s \<noteq> []"
  shows "update_display_items PLOT_COLORS d s =
           Inl (AttributeError,
                s\<lparr>plot_items := tl (plot_items s),
                  plotitem := (plotitem s)\<lparr>items := remove1 (hd (plot_items s)) (items (plotitem s))\<rparr>\<rparr>)
         \<and> (length (data d) \<noteq> length (plot_items s) \<longrightarrow>
              update_data H PLOT_COLORS d s =
                Inl (AttributeError,
                     s\<lparr>plot_items := tl (plot_items s),
                       plotitem := (plotitem s)\<lparr>items := remove1 (hd (plot_items s)) (items (plotitem s))\<rparr>\<rparr>))"
  using assms
  by (cases "plot_items s") (simp_all add: update_display_items_def update_data_def clear_items_raises)

text \<open>
  The theorem at a displayer showing one curve that receives data of two channels.
\<close>

theorem update_display_items_raises_witness:
  "plot_items \<lparr>plotitem = \<lparr>items = [0], legend = [(0, ''lab1'')]\<rparr>, plot_items = [0],
               data0D = [(''lab1'', [1])],
               objects = [(0, \<lparr>pen = (255, 255, 255), xData = [0], yData = [1]\<rparr>)],
               emitted = []\<rparr> \<noteq> []
   \<and> update_data last_values [(255, 255, 255), (255, 0, 0)]
        \<lparr>data = [[1], [2]], labels = [''lab1'', ''lab2'']\<rparr>
        \<lparr>plotitem = \<lparr>items = [0], legend = [(0, ''lab1'')]\<rparr>, plot_items = [0],
         data0D = [(''lab1'', [1])],
         objects = [(0, \<lparr>pen = (255, 255, 255), xData = [0], yData = [1]\<rparr>)],
         emitted = []\<rparr>
      = Inl (AttributeError,
             \<lparr>plotitem = \<lparr>items = [], legend = [(0, ''lab1'')]\<rparr>, plot_items = [],
              data0D = [(''lab1'', [1])],
              objects = [(0, \<lparr>pen = (255, 255, 255), xData = [0], yData = [1]\<rparr>)],
              emitted = []\<rparr>)"
  using update_display_items_raises
          [of "\<lparr>plotitem = \<lparr>items = [0], legend = [(0, ''lab1'')]\<rparr>, plot_items = [0],
                data0D = [(''lab1'', [1::real])],
                objects = [(0, \<lparr>pen = (255, 255, 255), xData = [0], yData = [1]\<rparr>)],
                emitted = []\<rparr>"
              "[(255, 255, 255), (255, 0, 0)]"
              "\<lparr>data = [[1], [2]], labels = [''lab1'', ''lab2'']\<rparr>"
              last_values]
  by simp

text \<open>
  The claim as it stands asks \<^verbatim>\<open>update_data\<close> to fail whenever the number of channels
  differs from the number of curves. On a displayer that shows no curve yet, the first
  data of two channels (as \<^verbatim>\<open>main()\<close> of viewer0D.py sends them) is displayed: the
  clearing loop is not entered.
\<close>

theorem update_data_first_call_counterexample:
  "length (data \<lparr>data = [[1], [2]], labels = [''lab1'', ''lab2'']\<rparr>)
     \<noteq> length (plot_items \<lparr>plotitem = \<lparr>items = [], legend = []\<rparr>, plot_items = [],
                            data0D = [], objects = [], emitted = []\<rparr>)
   \<and> update_data last_values [(255, 255, 255), (255, 0, 0)]
        \<lparr>data = [[1], [2]], labels = [''lab1'', ''lab2'']\<rparr>
        \<lparr>plotitem = \<lparr>items = [], legend = []\<rparr>, plot_items = [], data0D = [], objects = [],
         emitted = []\<rparr>
      = Inr \<lparr>plotitem = \<lparr>items = [0, 1], legend = [(0, ''lab1''), (1, ''lab2'')]\<rparr>,
             plot_items = [0, 1], data0D = [(''lab1'', [1]), (''lab2'', [2])],
             objects = [(0, \<lparr>pen = (255, 255, 255), xData = [0], yData = [1]\<rparr>),
                        (1, \<lparr>pen = (255, 0, 0), xData = [0], yData = [2]\<rparr>)],
             emitted = [Updated_item [0, 1], Labels_changed [''lab1'', ''lab2'']]\<rparr>"
  by (simp add: update_data_def update_display_items_def clear_items_empty new_PlotDataItem_def
        last_values_def Let_def upt_rec)

section \<open>Properties of the persistence layer\<close>

subsection \<open>Node names\<close>

lemma digit_value_digit: "n < 10 \<Longrightarrow> digit_value (digit n) = n"
proof -
  have "list_all (\<lambda>k. digit_value (digit k) = k) [0 ..< 10]"
    by code_simp
  then show "n < 10 \<Longrightarrow> digit_value (digit n) = n"
    by (simp add: list_all_iff)
qed

lemma number_snoc: "number (s @ [c]) = 10 * number s + digit_value c"
  by (simp add: number_def)

lemma number_decimal: "number (decimal n) = n"
proof (induction n rule: decimal.induct)
  case (1 n)
  show ?case
  proof (cases "n < 10")
    case True
    then show ?thesis
      by (subst decimal.simps) (simp add: number_def digit_value_digit)
  next
    case False
    then have "number (decimal (n div 10)) = n div 10"
      using 1 by simp
    with False show ?thesis
      by (subst decimal.simps) (simp add: number_snoc digit_value_digit)
  qed
qed

lemma number_two_digits: "number (two_digits n) = n"
proof -
  have "number (CHR ''0'' # s) = number s" for s
    by (simp add: number_def digit_value_def)
  then show ?thesis
    using number_decimal by (simp add: two_digits_def)
qed

lemma two_digits_inj: "two_digits i = two_digits j \<Longrightarrow> i = j"
  by (metis number_two_digits)

lemma format_node_name_inj:
  "format_node_name t i = format_node_name t' j \<Longrightarrow> t = t' \<and> i = j"
proof -
  assume eq: "format_node_name t i = format_node_name t' j"
  have "hd (format_node_name u k) = hd (type_value u)" for u k
    by (cases u) (simp_all add: format_node_name_def)
  with eq have "hd (type_value t) = hd (type_value t')"
    by metis
  then have "t = t'"
    by (cases t; cases t') simp_all
  with eq show ?thesis
    by (simp add: format_node_name_def two_digits_inj)
qed

lemma format_node_name_0: "format_node_name t 0 = type_value t @ ''00''"
  by (simp add: format_node_name_def two_digits_def decimal.simps digit_def)

lemma format_node_name_1: "format_node_name t (Suc 0) = type_value t @ ''01''"
  by (simp add: format_node_name_def two_digits_def decimal.simps digit_def)

lemma type_name_inj: "type_name t = type_name t' \<Longrightarrow> t = t'"
  by (cases t; cases t') simp_all

subsection \<open>Attributes\<close>

lemma map_of_set_attrs: "map_of (set_attrs md al) = map_of al ++ map_of (rev md)"
  unfolding set_attrs_def
proof (induction md arbitrary: al)
  case Nil
  show ?case by simp
next
  case (Cons kv md)
  obtain k v where kv: "kv = (k, v)" by (cases kv)
  have "map_of (foldl (\<lambda>al (k, v). AList.update k v al) (AList.update k v al) md)
          = map_of (AList.update k v al) ++ map_of (rev md)"
    by (rule Cons.IH)
  then show ?case
    by (simp add: kv update_conv' map_add_def fun_eq_iff split: option.splits)
qed

lemma new_array_data_type:
  "''data_type'' \<notin> fst ` set md \<Longrightarrow>
   is_node_of_data_type t' (new_array t title a dd md) \<longleftrightarrow> t' = t"
proof -
  assume "''data_type'' \<notin> fst ` set md"
  then have "map_of (rev md) ''data_type'' = None"
    by (simp add: map_of_eq_None_iff)
  then show ?thesis
    by (auto simp: is_node_of_data_type_def new_array_def map_of_set_attrs map_add_def
          dest: type_name_inj)
qed

lemma axis_node_attrs:
  "map_of (attrs (axis_node a))
     = (map_of [(''TITLE'', A_str (label a)), (''shape'', A_shape (shape (axis_data a)))])
         (''data_type'' \<mapsto> A_str ''axis'', ''data_dimension'' \<mapsto> A_str ''Data1D'',
          ''label'' \<mapsto> A_str (label a), ''units'' \<mapsto> A_str (units a),
          ''index'' \<mapsto> A_int (int (index a)), ''offset'' \<mapsto> A_real (offset a),
          ''scaling'' \<mapsto> A_real (scaling a))"
  by (simp add: axis_node_def new_array_def map_of_set_attrs axis_metadata_def fun_eq_iff map_add_def)

lemma data_node_attrs:
  "map_of (attrs (data_node t d ind))
     = (map_of [(''TITLE'', A_str (name d)), (''shape'', A_shape (shape (dwa_data d ! ind)))])
         (''data_type'' \<mapsto> A_str (type_name t), ''data_dimension'' \<mapsto> A_str (dim_name (dim d)),
          ''label'' \<mapsto> A_str (dwa_labels d ! ind), ''source'' \<mapsto> A_str (source d),
          ''distribution'' \<mapsto> A_str (distribution d))"
  by (simp add: data_node_def new_array_def map_of_set_attrs data_metadata_def fun_eq_iff map_add_def)

lemma axis_node_type: "is_node_of_data_type t (axis_node a) \<longleftrightarrow> t = Dt_axis"
  by (simp add: axis_node_def new_array_data_type axis_metadata_def)

lemma data_node_type: "is_node_of_data_type t' (data_node t d ind) \<longleftrightarrow> t' = t"
  by (simp add: data_node_def new_array_data_type data_metadata_def)

lemma load_axis_axis_node: "load_axis (axis_node a) = Some a"
  by (simp add: load_axis_def get_str_def get_int_def get_real_def axis_node_attrs)
     (simp add: axis_node_def new_array_def)

subsection \<open>Children of a group\<close>

lemma append_children_sel [simp]:
  "children (append_children g cs) = children g @ cs"
  "kind (append_children g cs) = kind g"
  "attrs (append_children g cs) = attrs g"
  "array (append_children g cs) = array g"
  by (simp_all add: append_children_def)

lemma append_children_Nil [simp]: "append_children g [] = g"
  by (simp add: append_children_def)

lemma append_children_append:
  "append_children (append_children g cs) ds = append_children g (cs @ ds)"
  by (simp add: append_children_def)

lemma get_child_None_iff: "get_child g n = None \<longleftrightarrow> n \<notin> fst ` set (children g)"
  by (simp add: get_child_def map_of_eq_None_iff)

lemma nodes_append_children:
  "get_nodes_from_data_type t (append_children g cs)
     = get_nodes_from_data_type t g @ filter (\<lambda>(n, c). is_node_of_data_type t c) cs"
  by (simp add: get_nodes_from_data_type_def)

lemma count_append_children:
  "get_next_data_type_index_in_group t (append_children g cs)
     = get_next_data_type_index_in_group t g + length (filter (\<lambda>(n, c). is_node_of_data_type t c) cs)"
  by (simp add: get_next_data_type_index_in_group_def nodes_append_children)

lemma well_named_fresh: "kind g = GROUP \<Longrightarrow> children g = [] \<Longrightarrow> well_named g"
  by (simp add: well_named_def)

lemma next_name_free:
  "well_named g \<Longrightarrow> get_next_node_name t g \<notin> fst ` set (children g)"
  unfolding well_named_def get_next_node_name_def by blast

lemma add_array_next:
  assumes "well_named g"
  shows "add_array g (get_next_node_name t g) t title a dd md
           = Some (append_children g [(get_next_node_name t g, new_array t title a dd md)])"
  using assms next_name_free [OF assms, of t]
  by (simp add: add_array_def add_child_def append_children_def well_named_def)

lemma well_named_append:
  assumes "well_named g" and "is_node_of_data_type t nd"
  shows "well_named (append_children g [(get_next_node_name t g, nd)])"
  unfolding well_named_def
proof (intro conjI allI impI)
  show "kind (append_children g [(get_next_node_name t g, nd)]) = GROUP"
    using assms(1) by (simp add: well_named_def)
next
  fix t' i
  assume "format_node_name t' i
            \<in> fst ` set (children (append_children g [(get_next_node_name t g, nd)]))"
  then consider (old) "format_node_name t' i \<in> fst ` set (children g)"
    | (new) "format_node_name t' i = get_next_node_name t g"
    by auto
  then show "i < get_next_data_type_index_in_group t'
                   (append_children g [(get_next_node_name t g, nd)])"
  proof cases
    case old
    with assms(1) have "i < get_next_data_type_index_in_group t' g"
      by (simp add: well_named_def)
    then show ?thesis
      by (simp add: count_append_children)
  next
    case new
    then have "t' = t" and "i = get_next_data_type_index_in_group t g"
      using format_node_name_inj by (auto simp: get_next_node_name_def)
    then show ?thesis
      using assms(2) by (simp add: count_append_children)
  qed
qed

subsection \<open>Nodes of a file\<close>

lemma get_child_set_child:
  "get_child g n = Some c \<Longrightarrow> get_child (set_child g n c') n = Some c'"
proof -
  have "map_of ch n = Some c \<Longrightarrow>
        map_of (map (\<lambda>(m, x). if m = n then (m, c') else (m, x)) ch) n = Some c'" for ch
    by (induction ch) (auto split: if_splits)
  then show "get_child g n = Some c \<Longrightarrow> get_child (set_child g n c') n = Some c'"
    by (simp add: get_child_def set_child_def)
qed

lemma set_node_get_node:
  "get_node f wh = Some g \<Longrightarrow>
   \<exists>f'. set_node f wh g' = Some f' \<and> (\<forall>q. get_node f' (wh @ q) = get_node g' q)"
proof (induction wh arbitrary: f)
  case Nil
  then show ?case by simp
next
  case (Cons n p)
  from Cons.prems obtain c where c: "get_child f n = Some c" and g: "get_node c p = Some g"
    by (auto split: option.splits)
  from Cons.IH [OF g] obtain c' where
    c': "set_node c p g' = Some c'" and q: "\<forall>q. get_node c' (p @ q) = get_node g' q"
    by blast
  have "get_child (set_child f n c') n = Some c'"
    using c by (rule get_child_set_child)
  with c c' q show ?case by simp
qed

lemma at_group_get_node:
  assumes "get_node f wh = Some g" and "op g = Some g'"
  shows "\<exists>f'. at_group f wh op = Some f' \<and> (\<forall>q. get_node f' (wh @ q) = get_node g' q)"
  using set_node_get_node [OF assms(1), of g'] assms by (simp add: at_group_def)

subsection \<open>Axes\<close>

lemma add_axis_next:
  assumes "well_named g"
  shows "add_axis g a = Some (append_children g [(get_next_node_name Dt_axis g, axis_node a)])"
  using assms by (simp add: add_axis_def add_array_next axis_node_def)

text \<open>
  C6. For every axis \<open>a\<close> and every well-named group of a file, \<^verbatim>\<open>add_axis(group, a)\<close>
  creates, under the next name of the axis type, a node whose attributes \<^verbatim>\<open>label\<close>,
  \<^verbatim>\<open>units\<close>, \<^verbatim>\<open>offset\<close>, \<^verbatim>\<open>scaling\<close> and \<^verbatim>\<open>index\<close> are the fields of \<open>a\<close> and
  whose array is the data of \<open>a\<close>; \<^verbatim>\<open>load_axis\<close> of that node gives \<open>a\<close> back.
\<close>

theorem add_axis_round_trip:
  assumes "get_node f wh = Some g" and "well_named g"
  shows "\<exists>f' nd.
           at_group f wh (\<lambda>g. add_axis g a) = Some f'
           \<and> get_node f' (wh @ [get_next_node_name Dt_axis g]) = Some nd
           \<and> map_of (attrs nd) ''label'' = Some (A_str (label a))
           \<and> map_of (attrs nd) ''units'' = Some (A_str (units a))
           \<and> map_of (attrs nd) ''offset'' = Some (A_real (offset a))
           \<and> map_of (attrs nd) ''scaling'' = Some (A_real (scaling a))
           \<and> map_of (attrs nd) ''index'' = Some (A_int (int (index a)))
           \<and> array nd = axis_data a
           \<and> load_axis nd = Some a"
proof -
  let ?n = "get_next_node_name Dt_axis g"
  let ?g' = "append_children g [(?n, axis_node a)]"
  have add: "add_axis g a = Some ?g'"
    using assms(2) by (rule add_axis_next)
  from at_group_get_node [where op = "\<lambda>g. add_axis g a", OF assms(1) add] obtain f' where
    f': "at_group f wh (\<lambda>g. add_axis g a) = Some f'"
    and q: "\<forall>q. get_node f' (wh @ q) = get_node ?g' q"
    by blast
  have "map_of (children g) ?n = None"
    using next_name_free [OF assms(2), of Dt_axis] by (simp add: map_of_eq_None_iff)
  then have "get_node ?g' [?n] = Some (axis_node a)"
    by (simp add: get_child_def map_add_def)
  with q have nd: "get_node f' (wh @ [?n]) = Some (axis_node a)"
    by simp
  have arr: "array (axis_node a) = axis_data a"
    by (simp add: axis_node_def new_array_def)
  show ?thesis
    using f' nd arr by (simp add: axis_node_attrs load_axis_axis_node)
qed

text \<open>
  The round trip of an axis of three points at a file whose group \<^verbatim>\<open>/RawData\<close> is new.
\<close>

theorem add_axis_round_trip_witness:
  "get_node (Node GROUP [] no_array [(''RawData'', new_group ''raw'')]) [''RawData'']
     = Some (new_group ''raw'')
   \<and> well_named (new_group ''raw'')
   \<and> get_next_node_name Dt_axis (new_group ''raw'') = ''Axis00''
   \<and> (\<exists>f' nd.
         at_group (Node GROUP [] no_array [(''RawData'', new_group ''raw'')]) [''RawData'']
           (\<lambda>g. add_axis g \<lparr>label = ''myaxis'', units = ''myunits'',
                              axis_data = \<lparr>shape = [3], flat = [- 5, - 4, - 3]\<rparr>,
                              index = 5, offset = - 5, scaling = 1\<rparr>) = Some f'
         \<and> get_node f' [''RawData'', ''Axis00''] = Some nd
         \<and> map_of (attrs nd) ''label'' = Some (A_str ''myaxis'')
         \<and> map_of (attrs nd) ''units'' = Some (A_str ''myunits'')
         \<and> map_of (attrs nd) ''offset'' = Some (A_real (- 5))
         \<and> map_of (attrs nd) ''scaling'' = Some (A_real 1)
         \<and> map_of (attrs nd) ''index'' = Some (A_int 5)
         \<and> array nd = \<lparr>shape = [3], flat = [- 5, - 4, - 3]\<rparr>
         \<and> load_axis nd = Some \<lparr>label = ''myaxis'', units = ''myunits'',
                                 axis_data = \<lparr>shape = [3], flat = [- 5, - 4, - 3]\<rparr>,
                                 index = 5, offset = - 5, scaling = 1\<rparr>)"
proof -
  let ?f = "Node GROUP [] no_array [(''RawData'', new_group ''raw'')]"
  have h1: "get_node ?f [''RawData''] = Some (new_group ''raw'')"
    by (simp add: get_child_def)
  have h2: "well_named (new_group ''raw'')"
    by (simp add: well_named_fresh new_group_def)
  have n: "get_next_node_name Dt_axis (new_group ''raw'') = ''Axis00''"
    by (simp add: get_next_node_name_def get_next_data_type_index_in_group_def
          get_nodes_from_data_type_def new_group_def format_node_name_0)
  show ?thesis
    using h1 h2 n
      add_axis_round_trip [OF h1 h2,
        of "\<lparr>label = ''myaxis'', units = ''myunits'',
             axis_data = \<lparr>shape = [3], flat = [- 5, - 4, - 3]\<rparr>,
             index = 5, offset = - 5, scaling = 1\<rparr>"]
    by simp
qed

subsection \<open>Fixed data\<close>

lemma map_snd_numbered: "map snd (numbered t k nds) = nds"
  by (induction nds arbitrary: k) simp_all

lemma filter_numbered:
  "\<forall>nd\<in>set nds. is_node_of_data_type t' nd \<longleftrightarrow> t' = t \<Longrightarrow>
   filter (\<lambda>(n, c). is_node_of_data_type t' c) (numbered t k nds)
     = (if t' = t then numbered t k nds else [])"
  by (induction nds arbitrary: k) auto

lemma map_of_numbered:
  "i < length nds \<Longrightarrow> map_of (numbered t k nds) (format_node_name t (k + i)) = Some (nds ! i)"
proof (induction nds arbitrary: k i)
  case Nil
  then show ?case by simp
next
  case (Cons nd nds)
  show ?case
  proof (cases i)
    case 0
    then show ?thesis by simp
  next
    case (Suc j)
    with Cons.prems have j: "j < length nds" by simp
    have "format_node_name t k \<noteq> format_node_name t (k + Suc j)"
      using format_node_name_inj [of t k t "k + Suc j"] by auto
    moreover have "map_of (numbered t (Suc k) nds) (format_node_name t (Suc k + j)) = Some (nds ! j)"
      using j by (rule Cons.IH)
    ultimately show ?thesis
      using Suc by simp
  qed
qed

lemma those_map_Some: "\<forall>x\<in>set xs. f x = Some (h x) \<Longrightarrow> those (map f xs) = Some (map h xs)"
  by (induction xs) simp_all

lemma add_data_arrays_numbered:
  assumes "well_named g"
    and "\<forall>ind\<in>set inds. ind < length (dwa_labels d) \<and> ind < length (dwa_data d)"
  shows "add_data_arrays t d inds g
           = Some (append_children g
                     (numbered t (get_next_data_type_index_in_group t g) (map (data_node t d) inds)))
         \<and> well_named (append_children g
                     (numbered t (get_next_data_type_index_in_group t g) (map (data_node t d) inds)))"
  using assms
proof (induction inds arbitrary: g)
  case Nil
  then show ?case by simp
next
  case (Cons ind inds)
  let ?k = "get_next_data_type_index_in_group t g"
  let ?g1 = "append_children g [(get_next_node_name t g, data_node t d ind)]"
  have add: "add_array g (get_next_node_name t g) t (name d) (dwa_data d ! ind) (dim_name (dim d))
               (data_metadata d (dwa_labels d ! ind)) = Some ?g1"
    using Cons.prems(1) by (simp add: add_array_next data_node_def)
  have wn: "well_named ?g1"
    using Cons.prems(1) by (rule well_named_append) (simp add: data_node_type)
  have k1: "get_next_data_type_index_in_group t ?g1 = Suc ?k"
    by (simp add: count_append_children data_node_type)
  from Cons.prems(2) have rest: "\<forall>i\<in>set inds. i < length (dwa_labels d) \<and> i < length (dwa_data d)"
    by simp
  from Cons.IH [OF wn rest] k1
  have ih: "add_data_arrays t d inds ?g1
              = Some (append_children ?g1 (numbered t (Suc ?k) (map (data_node t d) inds)))"
    and ihw: "well_named (append_children ?g1 (numbered t (Suc ?k) (map (data_node t d) inds)))"
    by simp_all
  have eq: "append_children ?g1 (numbered t (Suc ?k) (map (data_node t d) inds))
              = append_children g (numbered t ?k (map (data_node t d) (ind # inds)))"
    by (simp add: append_children_append get_next_node_name_def)
  from Cons.prems(2) have ok: "\<not> (length (dwa_labels d) \<le> ind \<or> length (dwa_data d) \<le> ind)"
    by auto
  show ?case
    using add ih ihw ok unfolding eq [symmetric] by simp
qed

lemma add_axes_numbered:
  assumes "well_named g"
  shows "add_axes as g
           = Some (append_children g
                     (numbered Dt_axis (get_next_data_type_index_in_group Dt_axis g) (map axis_node as)))"
  using assms
proof (induction as arbitrary: g)
  case Nil
  then show ?case by simp
next
  case (Cons a as)
  let ?k = "get_next_data_type_index_in_group Dt_axis g"
  let ?g1 = "append_children g [(get_next_node_name Dt_axis g, axis_node a)]"
  have add: "add_axis g a = Some ?g1"
    using Cons.prems by (rule add_axis_next)
  have wn: "well_named ?g1"
    using Cons.prems by (rule well_named_append) (simp add: axis_node_type)
  have k1: "get_next_data_type_index_in_group Dt_axis ?g1 = Suc ?k"
    by (simp add: count_append_children axis_node_type)
  from Cons.IH [OF wn] k1
  have "add_axes as ?g1 = Some (append_children ?g1 (numbered Dt_axis (Suc ?k) (map axis_node as)))"
    by simp
  with add show ?case
    by (simp add: append_children_append get_next_node_name_def)
qed

lemma dim_of_name_dim_name: "dim_of_name (dim_name dm) = Some dm"
  by (cases dm) (simp_all add: dim_of_name_def)

lemma load_data_from_group_hd:
  "load_data_from_group t g with_bkg =
     (let nodes = map snd (get_nodes_from_data_type t g)
      in if nodes = [] then None
         else do {
           ndarrays \<leftarrow> get_data_arrays t g with_bkg;
           axs \<leftarrow> get_axes g;
           title \<leftarrow> get_str (hd nodes) ''TITLE'';
           src \<leftarrow> get_str (hd nodes) ''source'';
           dm \<leftarrow> Option.bind (get_str (hd nodes) ''data_dimension'') dim_of_name;
           dist \<leftarrow> get_str (hd nodes) ''distribution'';
           ls \<leftarrow> those (map (\<lambda>nd. get_str nd ''label'') nodes);
           Some \<lparr>name = title, source = src, dim = dm, distribution = dist, dwa_data = ndarrays,
                 dwa_labels = ls, axes = axs\<rparr>
         })"
proof (cases "map snd (get_nodes_from_data_type t g)")
  case Nil
  then show ?thesis
    by (simp add: load_data_from_group_def)
next
  case (Cons x xs)
  show ?thesis
    unfolding load_data_from_group_def Let_def Cons
    by (simp only: list.case list.sel list.distinct if_False)
qed

lemma load_saved_group:
  assumes nodata: "get_nodes_from_data_type Dt_data g = []"
    and noaxis: "get_nodes_from_data_type Dt_axis g = []"
    and ne: "dwa_data d \<noteq> []"
    and len: "length (dwa_labels d) = length (dwa_data d)"
  defines "g' \<equiv> append_children g
                   (numbered Dt_data 0 (map (data_node Dt_data d) [0 ..< length (dwa_data d)])
                    @ numbered Dt_axis 0 (map axis_node (axes d)))"
  shows "load_data_from_group Dt_data g' False = Some d" and "get_axes g' = Some (axes d)"
proof -
  let ?n = "length (dwa_data d)"
  let ?nodes = "map (data_node Dt_data d) [0 ..< ?n]"
  have dn: "get_nodes_from_data_type Dt_data g' = numbered Dt_data 0 ?nodes"
    unfolding g'_def
    by (simp add: nodes_append_children nodata filter_numbered data_node_type axis_node_type)
  have an: "get_nodes_from_data_type Dt_axis g' = numbered Dt_axis 0 (map axis_node (axes d))"
    unfolding g'_def
    by (simp add: nodes_append_children noaxis filter_numbered data_node_type axis_node_type)
  have "map (\<lambda>(n, c). load_axis c) (numbered Dt_axis 0 (map axis_node (axes d)))
          = map load_axis (map snd (numbered Dt_axis 0 (map axis_node (axes d))))"
    by (simp add: case_prod_unfold)
  then have "get_axes g' = those (map (\<lambda>a. load_axis (axis_node a)) (axes d))"
    by (simp add: get_axes_def an map_snd_numbered comp_def)
  then show ax: "get_axes g' = Some (axes d)"
    by (simp add: those_map_Some [where h = "\<lambda>a. a"] load_axis_axis_node)
  from ne have upt: "[0 ..< ?n] = 0 # [1 ..< ?n]"
    by (simp add: upt_conv_Cons)
  have arrays: "map array ?nodes = dwa_data d"
  proof -
    have "array (data_node Dt_data d i) = dwa_data d ! i" for i
      by (simp add: data_node_def new_array_def)
    then have "map array ?nodes = map (\<lambda>i. dwa_data d ! i) [0 ..< ?n]"
      by simp
    also have "\<dots> = dwa_data d"
      by (rule map_nth)
    finally show ?thesis .
  qed
  have labels: "those (map (\<lambda>nd. get_str nd ''label'') ?nodes) = Some (dwa_labels d)"
  proof -
    have "those (map (\<lambda>ind. get_str (data_node Dt_data d ind) ''label'') [0 ..< ?n])
            = Some (map (\<lambda>ind. dwa_labels d ! ind) [0 ..< ?n])"
      by (rule those_map_Some) (simp add: get_str_def data_node_attrs)
    also have "map (\<lambda>ind. dwa_labels d ! ind) [0 ..< ?n] = dwa_labels d"
      unfolding len [symmetric] by (rule map_nth)
    finally show ?thesis
      by (simp add: comp_def)
  qed
  have nodes: "map snd (get_nodes_from_data_type Dt_data g') = ?nodes"
    by (simp add: dn map_snd_numbered)
  have nonempty: "?nodes \<noteq> []"
    using ne by simp
  have first: "hd ?nodes = data_node Dt_data d 0"
    using upt by simp
  have gda: "get_data_arrays Dt_data g' False = Some (dwa_data d)"
    using arrays by (simp add: get_data_arrays_def dn map_snd_numbered)
  show "load_data_from_group Dt_data g' False = Some d"
    unfolding load_data_from_group_hd nodes Let_def first
    using nonempty labels
    by (simp add: gda ax get_str_def data_node_attrs dim_of_name_dim_name)
qed

text \<open>
  C1. Let a data object \<open>d\<close>, with at least one array and one label per array, be saved by
  \<^verbatim>\<open>DataSaverLoader.add_data(group, d)\<close> into a well-named group that holds no data node
  and no axis node yet (a fresh group is one). Then \<^verbatim>\<open>load_data\<close> returns \<open>d\<close>, given
  any of the data nodes created (\<^verbatim>\<open>Data00\<close>, \<^verbatim>\<open>Data01\<close>, ..., one per array of
  \<open>d\<close>) as well as given the group, and \<^verbatim>\<open>get_axes(group)\<close> returns the axes of \<open>d\<close>
  in their order.
\<close>

theorem add_data_round_trip:
  assumes "get_node f wh = Some g" and "well_named g"
    and "get_nodes_from_data_type Dt_data g = []"
    and "get_nodes_from_data_type Dt_axis g = []"
    and "dwa_data d \<noteq> []" and "length (dwa_labels d) = length (dwa_data d)"
  shows "\<exists>f'. at_group f wh (\<lambda>g. add_data Dt_data g d True) = Some f'
           \<and> (\<forall>ind < length (dwa_data d).
                 \<exists>nd. get_node f' (wh @ [format_node_name Dt_data ind]) = Some nd
                      \<and> array nd = dwa_data d ! ind
                      \<and> load_data Dt_data f' (wh @ [format_node_name Dt_data ind]) False = Some d)
           \<and> load_data Dt_data f' wh False = Some d
           \<and> Option.bind (get_node f' wh) get_axes = Some (axes d)"
proof -
  let ?n = "length (dwa_data d)"
  let ?nodes = "map (data_node Dt_data d) [0 ..< ?n]"
  let ?datas = "numbered Dt_data 0 ?nodes"
  let ?axs = "numbered Dt_axis 0 (map axis_node (axes d))"
  let ?g1 = "append_children g ?datas"
  let ?g' = "append_children g (?datas @ ?axs)"
  have k0: "get_next_data_type_index_in_group Dt_data g = 0"
    and a0: "get_next_data_type_index_in_group Dt_axis g = 0"
    using assms(3,4) by (simp_all add: get_next_data_type_index_in_group_def)
  have inds: "\<forall>ind\<in>set [0 ..< ?n]. ind < length (dwa_labels d) \<and> ind < length (dwa_data d)"
    using assms(6) by simp
  from add_data_arrays_numbered [OF assms(2) inds, of Dt_data] k0
  have arrays: "add_data_arrays Dt_data d [0 ..< ?n] g = Some ?g1" and wn1: "well_named ?g1"
    by simp_all
  have a1: "get_next_data_type_index_in_group Dt_axis ?g1 = 0"
    by (simp add: count_append_children a0 filter_numbered data_node_type)
  from add_axes_numbered [OF wn1, of "axes d"] a1
  have "add_axes (axes d) ?g1 = Some ?g'"
    by (simp add: append_children_append)
  with arrays have add: "add_data Dt_data g d True = Some ?g'"
    by (simp add: add_data_def)
  from at_group_get_node [where op = "\<lambda>g. add_data Dt_data g d True", OF assms(1) add]
  obtain f' where f': "at_group f wh (\<lambda>g. add_data Dt_data g d True) = Some f'"
    and q: "\<forall>q. get_node f' (wh @ q) = get_node ?g' q"
    by blast
  from q [rule_format, of "[]"] have grp: "get_node f' wh = Some ?g'"
    by simp
  have is_group: "kind g = GROUP"
    using assms(2) by (simp add: well_named_def)
  have loaded: "load_data_from_group Dt_data ?g' False = Some d"
    and axes: "get_axes ?g' = Some (axes d)"
    using load_saved_group [OF assms(3,4,5,6)] by simp_all
  have from_group: "load_data Dt_data f' wh False = Some d"
    by (simp add: load_data_def grp is_group loaded)
  have from_node:
    "\<exists>nd. get_node f' (wh @ [format_node_name Dt_data ind]) = Some nd
          \<and> array nd = dwa_data d ! ind
          \<and> load_data Dt_data f' (wh @ [format_node_name Dt_data ind]) False = Some d"
    if ind: "ind < ?n" for ind
  proof -
    have "format_node_name Dt_data ind \<notin> fst ` set (children g)"
      using assms(2) k0 unfolding well_named_def by fastforce
    then have old: "map_of (children g) (format_node_name Dt_data ind) = None"
      by (simp add: map_of_eq_None_iff)
    have "map_of ?datas (format_node_name Dt_data (0 + ind)) = Some (?nodes ! ind)"
      using ind by (intro map_of_numbered) simp
    then have new: "map_of ?datas (format_node_name Dt_data ind) = Some (data_node Dt_data d ind)"
      using ind by simp
    have "get_node ?g' [format_node_name Dt_data ind] = Some (data_node Dt_data d ind)"
      using old new by (simp add: get_child_def map_add_def)
    with q have node: "get_node f' (wh @ [format_node_name Dt_data ind])
                         = Some (data_node Dt_data d ind)"
      by simp
    have arr: "array (data_node Dt_data d ind) = dwa_data d ! ind"
      and leaf: "kind (data_node Dt_data d ind) \<noteq> GROUP"
      by (simp_all add: data_node_def new_array_def)
    have "load_data Dt_data f' (wh @ [format_node_name Dt_data ind]) False = Some d"
      using leaf by (simp add: load_data_def node grp loaded)
    with node arr show ?thesis
      by simp
  qed
  show ?thesis
    using f' from_node from_group grp axes by simp
qed

text \<open>
  The round trip of data at a file whose group \<^verbatim>\<open>/RawData\<close> is new: two arrays of
  three points, with one axis; the data is loaded from \<^verbatim>\<open>Data00\<close>, from
  \<^verbatim>\<open>Data01\<close> and from the group.
\<close>

theorem add_data_round_trip_witness:
  "get_node (Node GROUP [] no_array [(''RawData'', new_group ''raw'')]) [''RawData'']
     = Some (new_group ''raw'')
   \<and> well_named (new_group ''raw'')
   \<and> get_nodes_from_data_type Dt_data (new_group ''raw'') = []
   \<and> get_nodes_from_data_type Dt_axis (new_group ''raw'') = []
   \<and> (\<exists>f' nd0 nd1.
         at_group (Node GROUP [] no_array [(''RawData'', new_group ''raw'')]) [''RawData'']
           (\<lambda>g. add_data Dt_data g
                   \<lparr>name = ''mydata'', source = ''raw'', dim = Data1D, distribution = ''uniform'',
                    dwa_data = [\<lparr>shape = [3], flat = [0, 1, 2]\<rparr>, \<lparr>shape = [3], flat = [3, 4, 5]\<rparr>],
                    dwa_labels = [''mylabel1'', ''mylabel2''],
                    axes = [\<lparr>label = ''myaxis'', units = ''myunits'',
                             axis_data = \<lparr>shape = [3], flat = [- 5, - 4, - 3]\<rparr>,
                             index = 0, offset = - 5, scaling = 1\<rparr>]\<rparr> True) = Some f'
         \<and> get_node f' [''RawData'', ''Data00''] = Some nd0
         \<and> array nd0 = \<lparr>shape = [3], flat = [0, 1, 2]\<rparr>
         \<and> get_node f' [''RawData'', ''Data01''] = Some nd1
         \<and> array nd1 = \<lparr>shape = [3], flat = [3, 4, 5]\<rparr>
         \<and> load_data Dt_data f' [''RawData'', ''Data00''] False
             = Some \<lparr>name = ''mydata'', source = ''raw'', dim = Data1D, distribution = ''uniform'',
                    dwa_data = [\<lparr>shape = [3], flat = [0, 1, 2]\<rparr>, \<lparr>shape = [3], flat = [3, 4, 5]\<rparr>],
                    dwa_labels = [''mylabel1'', ''mylabel2''],
                    axes = [\<lparr>label = ''myaxis'', units = ''myunits'',
                             axis_data = \<lparr>shape = [3], flat = [- 5, - 4, - 3]\<rparr>,
                             index = 0, offset = - 5, scaling = 1\<rparr>]\<rparr>
         \<and> load_data Dt_data f' [''RawData'', ''Data01''] False
             = Some \<lparr>name = ''mydata'', source = ''raw'', dim = Data1D, distribution = ''uniform'',
                    dwa_data = [\<lparr>shape = [3], flat = [0, 1, 2]\<rparr>, \<lparr>shape = [3], flat = [3, 4, 5]\<rparr>],
                    dwa_labels = [''mylabel1'', ''mylabel2''],
                    axes = [\<lparr>label = ''myaxis'', units = ''myunits'',
                             axis_data = \<lparr>shape = [3], flat = [- 5, - 4, - 3]\<rparr>,
                             index = 0, offset = - 5, scaling = 1\<rparr>]\<rparr>
         \<and> load_data Dt_data f' [''RawData''] False
             = Some \<lparr>name = ''mydata'', source = ''raw'', dim = Data1D, distribution = ''uniform'',
                    dwa_data = [\<lparr>shape = [3], flat = [0, 1, 2]\<rparr>, \<lparr>shape = [3], flat = [3, 4, 5]\<rparr>],
                    dwa_labels = [''mylabel1'', ''mylabel2''],
                    axes = [\<lparr>label = ''myaxis'', units = ''myunits'',
                             axis_data = \<lparr>shape = [3], flat = [- 5, - 4, - 3]\<rparr>,
                             index = 0, offset = - 5, scaling = 1\<rparr>]\<rparr>
         \<and> Option.bind (get_node f' [''RawData'']) get_axes
             = Some [\<lparr>label = ''myaxis'', units = ''myunits'',
                      axis_data = \<lparr>shape = [3], flat = [- 5, - 4, - 3]\<rparr>,
                      index = 0, offset = - 5, scaling = 1\<rparr>])"
proof -
  let ?f = "Node GROUP [] no_array [(''RawData'', new_group ''raw'')]"
  let ?d = "\<lparr>name = ''mydata'', source = ''raw'', dim = Data1D, distribution = ''uniform'',
             dwa_data = [\<lparr>shape = [3], flat = [0, 1, 2]\<rparr>, \<lparr>shape = [3], flat = [3, 4, 5]\<rparr>],
             dwa_labels = [''mylabel1'', ''mylabel2''],
             axes = [\<lparr>label = ''myaxis'', units = ''myunits'',
                      axis_data = \<lparr>shape = [3], flat = [- 5, - 4, - 3]\<rparr>,
                      index = 0, offset = - 5, scaling = 1\<rparr>]\<rparr>"
  have h1: "get_node ?f [''RawData''] = Some (new_group ''raw'')"
    by (simp add: get_child_def)
  have h2: "well_named (new_group ''raw'')"
    by (simp add: well_named_fresh new_group_def)
  have h3: "get_nodes_from_data_type t (new_group ''raw'') = []" for t
    by (simp add: get_nodes_from_data_type_def new_group_def)
  have h5: "dwa_data ?d \<noteq> []" and h6: "length (dwa_labels ?d) = length (dwa_data ?d)"
    by simp_all
  from add_data_round_trip [OF h1 h2 h3 h3 h5 h6] obtain f' where
    saved: "at_group ?f [''RawData''] (\<lambda>g. add_data Dt_data g ?d True) = Some f'"
    and nodes: "\<forall>ind < length (dwa_data ?d).
                  \<exists>nd. get_node f' ([''RawData''] @ [format_node_name Dt_data ind]) = Some nd
                       \<and> array nd = dwa_data ?d ! ind
                       \<and> load_data Dt_data f' ([''RawData''] @ [format_node_name Dt_data ind]) False
                           = Some ?d"
    and from_group: "load_data Dt_data f' [''RawData''] False = Some ?d"
    and axes: "Option.bind (get_node f' [''RawData'']) get_axes = Some (axes ?d)"
    by blast
  from nodes [rule_format, of 0] obtain nd0 where
    n0: "get_node f' [''RawData'', ''Data00''] = Some nd0"
    and a0: "array nd0 = \<lparr>shape = [3], flat = [0, 1, 2]\<rparr>"
    and l0: "load_data Dt_data f' [''RawData'', ''Data00''] False = Some ?d"
    by (auto simp: format_node_name_0)
  from nodes [rule_format, of 1] obtain nd1 where
    n1: "get_node f' [''RawData'', ''Data01''] = Some nd1"
    and a1: "array nd1 = \<lparr>shape = [3], flat = [3, 4, 5]\<rparr>"
    and l1: "load_data Dt_data f' [''RawData'', ''Data01''] False = Some ?d"
    by (auto simp: format_node_name_1)
  have ax: "Option.bind (get_node f' [''RawData'']) get_axes
              = Some [\<lparr>label = ''myaxis'', units = ''myunits'',
                       axis_data = \<lparr>shape = [3], flat = [- 5, - 4, - 3]\<rparr>,
                       index = 0, offset = - 5, scaling = 1\<rparr>]"
    using axes by simp
  show ?thesis
    using h1 h2 h3 saved n0 a0 n1 a1 l0 l1 from_group ax by blast
qed

end
